theory Spec2Isabelle
  imports Complex_Main
begin

section \<open>Data model\<close>

text \<open>
  A chunk is a LangChain \<open>Document\<close>: a text body and a metadata mapping. Python strings
  are sequences of code points; the model keeps the code point type \<open>'c\<close> open, so that
  \<open>len\<close> counts what Python counts.
\<close>

record 'c document =
  page_content :: "'c list"
  metadata :: "('c list \<times> 'c list) list"

datatype error = IndexError | ValueError | ProviderError

text \<open>
  A method that mutates its object either returns or raises; in both cases the object is
  left in some state, which the caller can still query.
\<close>

datatype 's outcome = Returned 's | Raised error 's

fun state_of :: "'s outcome \<Rightarrow> 's" where
  "state_of (Returned s) = s"
| "state_of (Raised e s) = s"

text \<open>
  The string methods the retrievers call (\<open>str.lower\<close>, and the white space test behind
  \<open>str.split()\<close>) are builtins of the language; they are passed in.
\<close>

record 'c text_api =
  lower :: "'c list \<Rightarrow> 'c list"
  isspace :: "'c \<Rightarrow> bool"

text \<open>
  The TF-IDF vectorizer of scikit-learn is used through two calls only:
  \<open>fit_transform(texts)\<close>, which learns vocabulary and weights from \<open>texts\<close> alone and
  returns one row per text, or raises (\<open>ValueError\<close>: an empty vocabulary, document
  frequency bounds that exclude every term), and \<open>transform([query])\<close>. \<open>fit\<close> yields the
  fitted vectorizer or the error, \<open>transform\<close> the row of one text; \<open>unfitted\<close> is the
  freshly constructed object, and \<open>after_failed_fit\<close> is what a \<open>fit_transform\<close> that
  raised leaves of the object it was called on.
\<close>

record ('c, 'm) vectorizer_api =
  unfitted :: 'm
  fit :: "'c list list \<Rightarrow> error + 'm"
  after_failed_fit :: "'m \<Rightarrow> 'm"
  transform :: "'m \<Rightarrow> 'c list \<Rightarrow> real list"

text \<open>
  Both store classes hold \<open>documents\<close> and \<open>embeddings\<close> (\<open>None\<close> until the first
  indexing); \<open>LocalVectorStore\<close> also holds its \<open>vectorizer\<close>.
\<close>

record 'c vector_store =
  documents :: "'c document list"
  embeddings :: "real list list option"

record ('c, 'm) local_vector_store = "'c vector_store" +
  vectorizer :: 'm

section \<open>Library operations\<close>

subsection \<open>Python slices and indexing\<close>

definition slice_from :: "int \<Rightarrow> 'a list \<Rightarrow> 'a list" where
  \<comment> \<open>\<open>xs[s:]\<close>: a negative start counts from the end, and the start is clamped.\<close>
  "slice_from s xs =
     (let n = int (length xs);
          j = (if s < 0 then max (s + n) 0 else min s n)
      in drop (nat j) xs)"

definition slice_to :: "int \<Rightarrow> 'a list \<Rightarrow> 'a list" where
  \<comment> \<open>\<open>xs[:e]\<close>\<close>
  "slice_to e xs =
     (let n = int (length xs);
          j = (if e < 0 then max (e + n) 0 else min e n)
      in take (nat j) xs)"

definition getitem :: "'a list \<Rightarrow> nat \<Rightarrow> error + 'a" where
  "getitem xs i = (if i < length xs then Inr (xs ! i) else Inl IndexError)"

subsection \<open>Sorting\<close>

definition is_argsort :: "(real list \<Rightarrow> nat list) \<Rightarrow> bool" where
  \<comment> \<open>\<open>numpy.argsort\<close> with its default kind is passed in as \<open>A\<close>. What the library
      promises of it: the row indices, each once, in ascending order of their value. The
      order among equal values is not specified.\<close>
  "is_argsort A =
     (\<forall>xs. distinct (A xs) \<and> set (A xs) = {0..<length xs} \<and> sorted (map ((!) xs) (A xs)))"

definition sort_reverse :: "('a \<Rightarrow> nat) \<Rightarrow> 'a list \<Rightarrow> 'a list" where
  \<comment> \<open>\<open>list.sort(key=..., reverse=True)\<close>: CPython reverses the list, sorts it stably
      in ascending order and reverses it again.\<close>
  "sort_reverse key xs = rev (sort_key key (rev xs))"

subsection \<open>Strings\<close>

fun split_from :: "'c text_api \<Rightarrow> 'c list \<Rightarrow> 'c list \<Rightarrow> 'c list list" where
  "split_from T cur [] = (if cur = [] then [] else [cur])"
| "split_from T cur (c # cs) =
     (if isspace T c
      then (if cur = [] then split_from T [] cs else cur # split_from T [] cs)
      else split_from T (cur @ [c]) cs)"

definition split :: "'c text_api \<Rightarrow> 'c list \<Rightarrow> 'c list list" where
  \<comment> \<open>\<open>str.split()\<close>: the maximal runs of characters that are not white space.\<close>
  "split T s = split_from T [] s"

function count_nonempty :: "'c list \<Rightarrow> 'c list \<Rightarrow> nat" where
  "count_nonempty sub s =
     (if sub = [] \<or> length s < length sub then 0
      else if take (length sub) s = sub
           then 1 + count_nonempty sub (drop (length sub) s)
           else count_nonempty sub (tl s))"
  by pat_completeness auto
termination
  by (relation "measure (\<lambda>(sub, s). length s)") (auto simp: neq_Nil_conv)

definition count :: "'c list \<Rightarrow> 'c list \<Rightarrow> nat" where
  \<comment> \<open>\<open>s.count(sub)\<close>: the number of non-overlapping occurrences of \<open>sub\<close> in \<open>s\<close>.\<close>
  "count s sub = (if sub = [] then length s + 1 else count_nonempty sub s)"

subsection \<open>Cosine similarity\<close>

definition dot :: "real list \<Rightarrow> real list \<Rightarrow> real" where
  "dot a b = sum_list (map (\<lambda>(x, y). x * y) (zip a b))"

definition vnorm :: "real list \<Rightarrow> real" where
  "vnorm a = sqrt (dot a a)"

definition cosine_similarity :: "real list \<Rightarrow> real list \<Rightarrow> real" where
  \<comment> \<open>Modelled from the spec: \<open>sklearn.metrics.pairwise.cosine_similarity\<close> is a library
      function the stores call; the specification gives it as
      \<open>dot(a,b) / (norm(a) * norm(b))\<close>, and \<open>0\<close> when either norm is \<open>0\<close>.\<close>
  "cosine_similarity a b =
     (if vnorm a = 0 \<or> vnorm b = 0 then 0 else dot a b / (vnorm a * vnorm b))"

section \<open>LocalVectorStore (indexer.py, indexer_with_json.py)\<close>

definition LocalVectorStore :: "('c, 'm) vectorizer_api \<Rightarrow> ('c, 'm) local_vector_store" where
  "LocalVectorStore V = \<lparr>documents = [], embeddings = None, vectorizer = unfitted V\<rparr>"

definition add_documents ::
  "('c, 'm) vectorizer_api \<Rightarrow> ('c, 'm) local_vector_store \<Rightarrow> 'c document list
   \<Rightarrow> ('c, 'm) local_vector_store outcome" where
  \<comment> \<open>\<open>self.documents\<close> is assigned before \<open>fit_transform\<close> is called, and nothing
      catches what \<open>fit_transform\<close> raises.\<close>
  "add_documents V s docs =
     (let s1 = s\<lparr>documents := docs\<rparr>;
          texts = map page_content docs
      in case fit V texts of
           Inl e \<Rightarrow> Raised e (s1\<lparr>vectorizer := after_failed_fit V (vectorizer s)\<rparr>)
         | Inr m \<Rightarrow>
             Returned (s1\<lparr>vectorizer := m, embeddings := Some (map (transform V m) texts)\<rparr>))"

fun collect_results ::
  "real list \<Rightarrow> 'd list \<Rightarrow> nat list \<Rightarrow> 'd list \<Rightarrow> error + 'd list" where
  "collect_results similarities docs [] results = Inr results"
| "collect_results similarities docs (idx # rest) results =
     (case getitem similarities idx of
        Inl e \<Rightarrow> Inl e
      | Inr sim \<Rightarrow>
          if sim > 0
          then (case getitem docs idx of
                  Inl e \<Rightarrow> Inl e
                | Inr d \<Rightarrow> collect_results similarities docs rest (results @ [d]))
          else collect_results similarities docs rest results)"

definition similarity_search ::
  "(real list \<Rightarrow> nat list) \<Rightarrow> ('c, 'm) vectorizer_api \<Rightarrow> ('c, 'm) local_vector_store
   \<Rightarrow> 'c list \<Rightarrow> int \<Rightarrow> error + 'c document list" where
  "similarity_search A V s query k =
     (case embeddings s of
        None \<Rightarrow> Inr []
      | Some E \<Rightarrow>
          if length (documents s) = 0 then Inr []
          else
            let query_vec = transform V (vectorizer s) query;
                similarities = map (cosine_similarity query_vec) E;
                top_indices = rev (slice_from (- k) (A similarities))
            in collect_results similarities (documents s) top_indices [])"

fun score_words :: "'c list \<Rightarrow> 'c list list \<Rightarrow> nat \<Rightarrow> nat" where
  "score_words content [] score = score"
| "score_words content (word # rest) score =
     score_words content rest
       (if length word > 3 then score + count content word * length word else score)"

fun score_documents ::
  "'c text_api \<Rightarrow> 'c list list \<Rightarrow> 'c document list \<Rightarrow> (nat \<times> 'c document) list
   \<Rightarrow> (nat \<times> 'c document) list" where
  "score_documents T query_words [] scored_docs = scored_docs"
| "score_documents T query_words (doc # rest) scored_docs =
     (let content = lower T (page_content doc);
          score = score_words content query_words 0
      in score_documents T query_words rest
           (if score > 0 then scored_docs @ [(score, doc)] else scored_docs))"

definition keyword_search ::
  "'c text_api \<Rightarrow> ('c, 'm) local_vector_store \<Rightarrow> 'c list \<Rightarrow> int \<Rightarrow> 'c document list" where
  "keyword_search T s query k =
     (if documents s = [] then []
      else
        let query_words = split T (lower T query);
            scored_docs = sort_reverse fst (score_documents T query_words (documents s) [])
        in map snd (slice_to k scored_docs))"

section \<open>LocalEmbeddingVectorStore (indexer_with_local_embeddings.py)\<close>

text \<open>
  The sentence-embedding model is an opaque function \<open>encode\<close> from a text to its vector.
\<close>

definition LocalEmbeddingVectorStore :: "'c vector_store" where
  "LocalEmbeddingVectorStore = \<lparr>documents = [], embeddings = None\<rparr>"

definition emb_add_documents ::
  "('c list \<Rightarrow> real list) \<Rightarrow> 'c vector_store \<Rightarrow> 'c document list \<Rightarrow> 'c vector_store" where
  "emb_add_documents encode s docs =
     (let texts = map page_content docs;
          new_embeddings = map encode texts
      in s\<lparr>documents := documents s @ docs,
            embeddings := (case embeddings s of
                             None \<Rightarrow> Some new_embeddings
                           | Some E \<Rightarrow> Some (E @ new_embeddings))\<rparr>)"

fun getitems :: "'d list \<Rightarrow> nat list \<Rightarrow> error + 'd list" where
  "getitems docs [] = Inr []"
| "getitems docs (i # rest) =
     (case getitem docs i of
        Inl e \<Rightarrow> Inl e
      | Inr d \<Rightarrow> (case getitems docs rest of Inl e \<Rightarrow> Inl e | Inr ds \<Rightarrow> Inr (d # ds)))"

definition emb_similarity_search ::
  "(real list \<Rightarrow> nat list) \<Rightarrow> ('c list \<Rightarrow> real list) \<Rightarrow> 'c vector_store \<Rightarrow> 'c list \<Rightarrow> int
   \<Rightarrow> error + 'c document list" where
  \<comment> \<open>\<open>cosine_similarity(X, None)\<close> compares \<open>X\<close> with itself; the class never reaches
      that case, since documents and embeddings are only ever added together.\<close>
  "emb_similarity_search A encode s query k =
     (if documents s = [] then Inr []
      else
        let query_embedding = encode query;
            similarities = (case embeddings s of
                              None \<Rightarrow> [cosine_similarity query_embedding query_embedding]
                            | Some E \<Rightarrow> map (cosine_similarity query_embedding) E);
            top_indices = rev (slice_from (- k) (A similarities))
        in getitems (documents s) top_indices)"

fun emb_score_documents ::
  "'c text_api \<Rightarrow> 'c list list \<Rightarrow> 'c document list \<Rightarrow> (nat \<times> 'c document) list
   \<Rightarrow> (nat \<times> 'c document) list" where
  "emb_score_documents T query_words [] scored_docs = scored_docs"
| "emb_score_documents T query_words (doc # rest) scored_docs =
     (let content_words = set (split T (lower T (page_content doc)));
          score = card (set query_words \<inter> content_words)
      in emb_score_documents T query_words rest (scored_docs @ [(score, doc)]))"

definition emb_keyword_search ::
  "'c text_api \<Rightarrow> 'c vector_store \<Rightarrow> 'c list \<Rightarrow> int \<Rightarrow> 'c document list" where
  "emb_keyword_search T s query k =
     (if documents s = [] then []
      else
        let query_words = split T (lower T query);
            scored_docs = sort_reverse fst (emb_score_documents T query_words (documents s) [])
        in map snd (filter (\<lambda>(score, doc). score > 0) (slice_to k scored_docs)))"

section \<open>create_vector_store (indexer.py)\<close>

text \<open>
  The embedding provider is reached through \<open>InMemoryVectorStore.from_documents\<close>, which
  embeds every chunk text or raises; \<open>provider\<close> is that call, an error being any
  exception of the \<open>try\<close> block. The \<open>except\<close> branch is not guarded: what
  \<open>add_documents\<close> raises there leaves the function.
\<close>

datatype ('c, 'm) any_vector_store =
  InMemoryVectorStore "('c document \<times> real list) list"
| Local "('c, 'm) local_vector_store"

definition create_vector_store ::
  "('c, 'm) vectorizer_api \<Rightarrow> ('c list list \<Rightarrow> error + real list list) \<Rightarrow> 'c document list
   \<Rightarrow> error + ('c, 'm) any_vector_store" where
  "create_vector_store V provider chunks =
     (case provider (map page_content chunks) of
        Inr vectors \<Rightarrow> Inr (InMemoryVectorStore (zip chunks vectors))
      | Inl e \<Rightarrow>
          (case add_documents V (LocalVectorStore V) chunks of
             Returned vector_store \<Rightarrow> Inr (Local vector_store)
           | Raised e' vector_store \<Rightarrow> Inl e'))"

section \<open>Notions used in the statements\<close>

definition chunk_similarity ::
  "('c, 'm) vectorizer_api \<Rightarrow> 'm \<Rightarrow> 'c list \<Rightarrow> 'c document \<Rightarrow> real" where
  \<comment> \<open>The cosine similarity of a chunk to a query, under a fitted vectorizer.\<close>
  "chunk_similarity V m q d = cosine_similarity (transform V m q) (transform V m (page_content d))"

definition query_similarities ::
  "('c, 'm) vectorizer_api \<Rightarrow> 'm \<Rightarrow> 'c document list \<Rightarrow> 'c list \<Rightarrow> real list" where
  \<comment> \<open>Entry \<open>i\<close> is the similarity of chunk \<open>i\<close> of the collection.\<close>
  "query_similarities V m docs q = map (chunk_similarity V m q) docs"

definition emb_similarities ::
  "('c list \<Rightarrow> real list) \<Rightarrow> 'c document list \<Rightarrow> 'c list \<Rightarrow> real list" where
  "emb_similarities encode docs q =
     map (\<lambda>d. cosine_similarity (encode q) (encode (page_content d))) docs"

definition keyword_score :: "'c text_api \<Rightarrow> 'c list \<Rightarrow> 'c document \<Rightarrow> nat" where
  \<comment> \<open>The keyword score in the specification's words, for the query words longer than
      three characters: occurrence count in the lowercased chunk times word length.\<close>
  "keyword_score T query d =
     sum_list (map (\<lambda>w. count (lower T (page_content d)) w * length w)
                (filter (\<lambda>w. length w > 3) (split T (lower T query))))"

definition shared_words :: "'c text_api \<Rightarrow> 'c list \<Rightarrow> 'c document \<Rightarrow> nat" where
  \<comment> \<open>The number of distinct query words that are also words of the chunk.\<close>
  "shared_words T query d =
     card (set (split T (lower T query)) \<inter> set (split T (lower T (page_content d))))"

section \<open>A concrete instance\<close>

text \<open>
  For running the operations on examples: ASCII text; a sort of the row indices by
  insertion, which is one \<open>argsort\<close>; a term-count vectorizer with scikit-learn's default
  tokens (the lowercased words of two or more word characters) and its empty-vocabulary
  error; a one-dimensional encoder with both signs; a provider that always fails.
\<close>

definition ascii_lower :: "char \<Rightarrow> char" where
  "ascii_lower c =
     (let n = (of_char c :: nat)
      in if 65 \<le> n \<and> n \<le> 90
         then (case c of Char b0 b1 b2 b3 b4 b5 b6 b7 \<Rightarrow> Char b0 b1 b2 b3 b4 True b6 b7)
         else c)"

definition ascii_isspace :: "char \<Rightarrow> bool" where
  "ascii_isspace c = ((of_char c :: nat) \<in> {9, 10, 11, 12, 13, 28, 29, 30, 31, 32})"

definition ascii_text :: "char text_api" where
  "ascii_text = \<lparr>lower = map ascii_lower, isspace = ascii_isspace\<rparr>"

definition insertion_argsort :: "real list \<Rightarrow> nat list" where
  "insertion_argsort xs = sort_key (\<lambda>i. xs ! i) [0..<length xs]"

definition is_word_char :: "char \<Rightarrow> bool" where
  "is_word_char c =
     (let n = (of_char c :: nat)
      in (48 \<le> n \<and> n \<le> 57) \<or> (65 \<le> n \<and> n \<le> 90) \<or> (97 \<le> n \<and> n \<le> 122) \<or> n = 95)"

definition word_tokens :: "string \<Rightarrow> string list" where
  "word_tokens text =
     filter (\<lambda>w. 2 \<le> length w)
       (split \<lparr>lower = map ascii_lower, isspace = (\<lambda>c. \<not> is_word_char c)\<rparr>
          (map ascii_lower text))"

definition word_vectorizer :: "(char, string list) vectorizer_api" where
  "word_vectorizer =
     \<lparr>unfitted = [],
      fit = (\<lambda>texts. let vocabulary = remdups (concat (map word_tokens texts))
                     in if vocabulary = [] then Inl ValueError else Inr vocabulary),
      after_failed_fit = (\<lambda>vocabulary. vocabulary),
      transform = (\<lambda>vocabulary text.
                     map (\<lambda>t. real (count_list (word_tokens text) t)) vocabulary)\<rparr>"

definition balance_encode :: "string \<Rightarrow> real list" where
  "balance_encode text = [real (count_list text CHR ''a'') - real (count_list text CHR ''b'')]"

definition doc :: "string \<Rightarrow> char document" where
  "doc text = \<lparr>page_content = text, metadata = []\<rparr>"

definition failing_provider :: "string list \<Rightarrow> error + real list list" where
  "failing_provider texts = Inl ProviderError"

abbreviation fresh_store :: "(char, string list) local_vector_store" where
  "fresh_store \<equiv> LocalVectorStore word_vectorizer"

abbreviation indexed_from ::
  "(char, string list) local_vector_store \<Rightarrow> char document list
   \<Rightarrow> (char, string list) local_vector_store" where
  "indexed_from s docs \<equiv> state_of (add_documents word_vectorizer s docs)"

section \<open>Slices, argsort and the result loops\<close>

lemma set_slice_from: "set (slice_from s xs) \<subseteq> set xs"
  by (auto simp: slice_from_def Let_def dest: in_set_dropD)

lemma length_slice_from_neg: "1 \<le> k \<Longrightarrow> length (slice_from (- k) xs) = min (nat k) (length xs)"
  by (auto simp: slice_from_def Let_def)

lemma length_slice_to_pos: "0 \<le> k \<Longrightarrow> length (slice_to k xs) = min (nat k) (length xs)"
  by (auto simp: slice_to_def Let_def)

lemma slice_to_take: "0 \<le> k \<Longrightarrow> slice_to k xs = take (nat k) xs"
  by (auto simp: slice_to_def Let_def min_def)


lemma set_argsort: "is_argsort A \<Longrightarrow> set (A xs) = {0..<length xs}"
  by (simp add: is_argsort_def)

lemma length_argsort:
  assumes "is_argsort A"
  shows "length (A xs) = length xs"
proof -
  have "distinct (A xs)" "set (A xs) = {0..<length xs}"
    using assms by (simp_all add: is_argsort_def)
  then show ?thesis
    using distinct_card[of "A xs"] by simp
qed

lemma is_argsort_insertion: "is_argsort insertion_argsort"
  by (simp add: is_argsort_def insertion_argsort_def)

lemma top_indices_bound:
  "is_argsort A \<Longrightarrow> i \<in> set (rev (slice_from s (A sims))) \<Longrightarrow> i < length sims"
  using set_slice_from[of s "A sims"] by (auto simp: set_argsort)

lemma collect_results_eq:
  "\<forall>i\<in>set idxs. i < length sims \<and> i < length docs \<Longrightarrow>
   collect_results sims docs idxs acc =
     Inr (acc @ map ((!) docs) (filter (\<lambda>i. sims ! i > 0) idxs))"
  by (induction idxs arbitrary: acc) (auto simp: getitem_def)


lemma getitems_eq:
  "\<forall>i\<in>set idxs. i < length docs \<Longrightarrow> getitems docs idxs = Inr (map ((!) docs) idxs)"
  by (induction idxs) (auto simp: getitem_def)

section \<open>What indexing leaves and what a search returns\<close>

lemma add_documents_Returned:
  "add_documents V s docs = Returned s' \<longleftrightarrow>
     (\<exists>m. fit V (map page_content docs) = Inr m
          \<and> s' = s\<lparr>documents := docs, vectorizer := m,
                    embeddings := Some (map (\<lambda>d. transform V m (page_content d)) docs)\<rparr>)"
  by (auto simp: add_documents_def Let_def o_def split: sum.splits)

lemma add_documents_Raised:
  "add_documents V s docs = Raised e s' \<longleftrightarrow>
     (fit V (map page_content docs) = Inl e
      \<and> s' = s\<lparr>documents := docs, vectorizer := after_failed_fit V (vectorizer s)\<rparr>)"
  by (auto simp: add_documents_def Let_def split: sum.splits)

lemma documents_add_documents: "documents (state_of (add_documents V s docs)) = docs"
  by (simp add: add_documents_def Let_def split: sum.splits)

lemma length_query_similarities: "length (query_similarities V m docs q) = length docs"
  by (simp add: query_similarities_def)

lemma nth_query_similarities:
  "i < length docs \<Longrightarrow> query_similarities V m docs q ! i = chunk_similarity V m q (docs ! i)"
  by (simp add: query_similarities_def)

lemma similarity_search_indexed:
  assumes A: "is_argsort A" and ok: "add_documents V s docs = Returned s'"
  shows "similarity_search A V s' q k =
     Inr (map ((!) docs)
       (filter (\<lambda>i. query_similarities V (vectorizer s') docs q ! i > 0)
         (rev (slice_from (- k) (A (query_similarities V (vectorizer s') docs q))))))"
proof -
  from ok obtain m where
    s': "s' = s\<lparr>documents := docs, vectorizer := m,
                 embeddings := Some (map (\<lambda>d. transform V m (page_content d)) docs)\<rparr>"
    by (auto simp: add_documents_Returned)
  let ?sims = "query_similarities V m docs q"
  have sims: "map (cosine_similarity (transform V m q) \<circ> (\<lambda>d. transform V m (page_content d)))
                docs = ?sims"
    by (simp add: query_similarities_def chunk_similarity_def o_def)
  show ?thesis
  proof (cases "docs = []")
    case True
    then show ?thesis
      using length_argsort[OF A, of "[]"]
      by (simp add: s' similarity_search_def query_similarities_def slice_from_def)
  next
    case False
    have "\<forall>i\<in>set (rev (slice_from (- k) (A ?sims))). i < length ?sims \<and> i < length docs"
      using top_indices_bound[OF A, of _ "- k" ?sims] by (auto simp: length_query_similarities)
    from collect_results_eq[OF this, of "[]"] False show ?thesis
      by (simp add: s' similarity_search_def Let_def sims)
  qed
qed


lemma emb_similarity_search_indexed:
  assumes A: "is_argsort A"
  shows "emb_similarity_search A encode (emb_add_documents encode LocalEmbeddingVectorStore docs) q k =
     Inr (map ((!) docs) (rev (slice_from (- k) (A (emb_similarities encode docs q)))))"
proof (cases "docs = []")
  case True
  then show ?thesis
    using length_argsort[OF A, of "[]"]
    by (simp add: emb_similarity_search_def emb_add_documents_def LocalEmbeddingVectorStore_def
        emb_similarities_def slice_from_def)
next
  case False
  let ?sims = "emb_similarities encode docs q"
  have len: "length ?sims = length docs" by (simp add: emb_similarities_def)
  have "\<forall>i\<in>set (rev (slice_from (- k) (A ?sims))). i < length docs"
    using top_indices_bound[OF A, of _ "- k" ?sims] len by auto
  from getitems_eq[OF this] False show ?thesis
    by (simp add: emb_similarity_search_def emb_add_documents_def LocalEmbeddingVectorStore_def
        emb_similarities_def Let_def o_def)
qed

section \<open>Cosine similarity of a zero vector\<close>

lemma dot_zero_left: "\<forall>x\<in>set a. x = 0 \<Longrightarrow> dot a b = 0"
  unfolding dot_def
proof (induction a arbitrary: b)
  case Nil
  then show ?case by simp
next
  case (Cons x a)
  then show ?case by (cases b) auto
qed

lemma vnorm_zero: "\<forall>x\<in>set a. x = 0 \<Longrightarrow> vnorm a = 0"
  by (simp add: vnorm_def dot_zero_left)

section \<open>Keyword scoring and the descending sort\<close>

lemma score_words_eq:
  "score_words content ws acc =
     acc + sum_list (map (\<lambda>w. count content w * length w) (filter (\<lambda>w. length w > 3) ws))"
  by (induction ws arbitrary: acc) auto

lemma score_words_keyword_score:
  "score_words (lower T (page_content d)) (split T (lower T query)) 0 = keyword_score T query d"
  by (simp add: score_words_eq keyword_score_def)

lemma score_documents_eq:
  "score_documents T (split T (lower T query)) docs acc =
     acc @ filter (\<lambda>(score, d). score > 0) (map (\<lambda>d. (keyword_score T query d, d)) docs)"
  by (induction docs arbitrary: acc) (simp_all add: Let_def score_words_keyword_score)

lemma emb_score_documents_eq:
  "emb_score_documents T (split T (lower T query)) docs acc =
     acc @ map (\<lambda>d. (shared_words T query d, d)) docs"
  by (induction docs arbitrary: acc) (auto simp: Let_def shared_words_def)

lemma length_sort_reverse: "length (sort_reverse key xs) = length xs"
  by (simp add: sort_reverse_def)


lemma sort_reverse_descending:
  "sorted_wrt (\<lambda>a b. key a \<ge> key b) (sort_reverse key xs)"
proof -
  have "sorted (map key (sort_key key (rev xs)))" by (rule sorted_sort_key)
  then have "sorted_wrt (\<lambda>a b. key a \<le> key b) (sort_key key (rev xs))"
    by (simp add: sorted_map)
  then show ?thesis
    by (simp add: sort_reverse_def sorted_wrt_rev)
qed

lemma sort_reverse_stable:
  "filter (\<lambda>x. key x = v) (sort_reverse key xs) = filter (\<lambda>x. key x = v) xs"
  by (simp add: sort_reverse_def rev_filter[symmetric] sort_key_stable)

lemma keyword_search_scored:
  "keyword_search T s query k =
     map snd (slice_to k (sort_reverse fst
       (filter (\<lambda>(score, d). score > 0)
          (map (\<lambda>d. (keyword_score T query d, d)) (documents s)))))"
  by (simp add: keyword_search_def Let_def score_documents_eq sort_reverse_def slice_to_def)

lemma length_keyword_search:
  "1 \<le> k \<Longrightarrow> length (keyword_search T s query k) \<le> min (nat k) (length (documents s))"
proof -
  assume k: "1 \<le> k"
  let ?scored = "filter (\<lambda>(score, d). score > 0)
          (map (\<lambda>d. (keyword_score T query d, d)) (documents s))"
  have le: "length ?scored \<le> length (documents s)"
    using length_filter_le[of _ "map (\<lambda>d. (keyword_score T query d, d)) (documents s)"] by simp
  have "length (keyword_search T s query k) = min (nat k) (length ?scored)"
    using k by (simp add: keyword_search_scored length_slice_to_pos length_sort_reverse)
  also have "\<dots> \<le> min (nat k) (length (documents s))"
    by (rule min.mono[OF order_refl le])
  finally show ?thesis .
qed


lemma similarity_search_fresh_failed:
  "embeddings s = None \<Longrightarrow> add_documents V s docs = Raised e s' \<Longrightarrow>
   similarity_search A V s' q k = Inr []"
  by (auto simp: add_documents_Raised similarity_search_def)

lemma similarity_search_positive:
  assumes A: "is_argsort A" and ok: "add_documents V s docs = Returned s'"
  shows "\<exists>res. similarity_search A V s' q k = Inr res
         \<and> (\<forall>d\<in>set res. chunk_similarity V (vectorizer s') q d > 0)"
proof -
  let ?sims = "query_similarities V (vectorizer s') docs q"
  let ?idxs = "filter (\<lambda>i. ?sims ! i > 0) (rev (slice_from (- k) (A ?sims)))"
  have "\<forall>i\<in>set ?idxs. chunk_similarity V (vectorizer s') q (docs ! i) > 0"
  proof
    fix i assume i: "i \<in> set ?idxs"
    then have "i < length docs"
      using top_indices_bound[OF A, of i "- k" ?sims] by (simp add: length_query_similarities)
    with i show "chunk_similarity V (vectorizer s') q (docs ! i) > 0"
      by (simp add: nth_query_similarities)
  qed
  then show ?thesis
    by (simp add: similarity_search_indexed[OF A ok])
qed

section \<open>Claims\<close>

subsection \<open>C1: the positive-similarity filter\<close>

text \<open>
  Claim C1, as amended. Whenever indexing a collection into a \<open>LocalVectorStore\<close> (the
  TF-IDF store) has returned, a similarity search on it returns only chunks whose cosine
  similarity to the query is positive, for every query and \<open>k\<close>, also when fewer than
  \<open>k\<close> remain. \<open>LocalEmbeddingVectorStore.similarity_search\<close> has no such filter: for
  \<open>k \<ge> 1\<close> it returns exactly \<open>min(k, |C|)\<close> chunks, whatever the sign of their
  similarity. Both hold for every \<open>argsort\<close>.
\<close>

theorem similarity_filter_by_store:
  "is_argsort A \<Longrightarrow>
   (add_documents V s docs = Returned s' \<longrightarrow>
      (\<exists>res. similarity_search A V s' q k = Inr res
            \<and> (\<forall>d\<in>set res. chunk_similarity V (vectorizer s') q d > 0)))
   \<and> (1 \<le> k \<longrightarrow>
        (\<exists>res. emb_similarity_search A encode
                  (emb_add_documents encode LocalEmbeddingVectorStore docs) q k = Inr res
              \<and> length res = min (nat k) (length docs)))"
proof (intro conjI impI)
  assume "is_argsort A" and "add_documents V s docs = Returned s'"
  then show "\<exists>res. similarity_search A V s' q k = Inr res
         \<and> (\<forall>d\<in>set res. chunk_similarity V (vectorizer s') q d > 0)"
    by (rule similarity_search_positive)
next
  assume A: "is_argsort A" and "1 \<le> k"
  then show "\<exists>res. emb_similarity_search A encode
                  (emb_add_documents encode LocalEmbeddingVectorStore docs) q k = Inr res
              \<and> length res = min (nat k) (length docs)"
    by (simp add: emb_similarity_search_indexed length_slice_from_neg length_argsort
        emb_similarities_def)
qed

text \<open>
  The theorem at a two-chunk collection with \<open>k = 3\<close>.
\<close>

theorem similarity_filter_by_store_witness:
  "is_argsort insertion_argsort
   \<and> add_documents word_vectorizer (LocalVectorStore word_vectorizer)
        [doc ''kitten'', doc ''puppy'']
       = Returned (state_of (add_documents word_vectorizer (LocalVectorStore word_vectorizer)
                               [doc ''kitten'', doc ''puppy'']))
   \<and> (\<exists>res. similarity_search insertion_argsort word_vectorizer
              (state_of (add_documents word_vectorizer (LocalVectorStore word_vectorizer)
                           [doc ''kitten'', doc ''puppy''])) ''kitten'' 3 = Inr res
          \<and> (\<forall>d\<in>set res. chunk_similarity word_vectorizer
                  (vectorizer (state_of (add_documents word_vectorizer
                     (LocalVectorStore word_vectorizer) [doc ''kitten'', doc ''puppy''])))
                  ''kitten'' d > 0))
   \<and> (1::int) \<le> 3
   \<and> (\<exists>res. emb_similarity_search insertion_argsort balance_encode
              (emb_add_documents balance_encode LocalEmbeddingVectorStore
                 [doc ''kitten'', doc ''puppy'']) ''kitten'' 3 = Inr res
          \<and> length res = min (nat 3) (length [doc ''kitten'', doc ''puppy'']))"
proof -
  have h1: "is_argsort insertion_argsort" by (rule is_argsort_insertion)
  have h2: "add_documents word_vectorizer (LocalVectorStore word_vectorizer)
        [doc ''kitten'', doc ''puppy'']
       = Returned (state_of (add_documents word_vectorizer (LocalVectorStore word_vectorizer)
                               [doc ''kitten'', doc ''puppy'']))"
    by (simp add: add_documents_def word_vectorizer_def word_tokens_def split_def doc_def
        is_word_char_def ascii_lower_def Let_def)
  have h3: "(1::int) \<le> 3" by simp
  from h1 h2 h3 similarity_filter_by_store [OF h1, where V = word_vectorizer
      and s = "LocalVectorStore word_vectorizer" and docs = "[doc ''kitten'', doc ''puppy'']"
      and s' = "state_of (add_documents word_vectorizer (LocalVectorStore word_vectorizer)
                               [doc ''kitten'', doc ''puppy''])"
      and q = "''kitten''" and k = 3 and encode = balance_encode]
  show ?thesis by blast
qed

text \<open>
  As stated for every store, the claim fails on the embedding store: a one-chunk index
  whose chunk has similarity \<open>-1\<close> to the query returns that chunk.
\<close>

theorem similarity_filter_counterexample:
  "emb_similarities balance_encode [doc ''b''] ''a'' = [- 1]
   \<and> emb_similarity_search insertion_argsort balance_encode
        (emb_add_documents balance_encode LocalEmbeddingVectorStore [doc ''b'']) ''a'' 1
      = Inr [doc ''b'']"
  by (simp add: emb_similarity_search_def emb_add_documents_def LocalEmbeddingVectorStore_def
      emb_similarities_def balance_encode_def doc_def cosine_similarity_def vnorm_def dot_def
      insertion_argsort_def slice_from_def getitem_def)

subsection \<open>C3: indexing twice\<close>




subsection \<open>C4: at most min(k, |C|) results\<close>

text \<open>
  Claim C4. For every non-empty collection \<open>C\<close> and every \<open>k \<ge> 1\<close>, the similarity search
  and the keyword search of the TF-IDF store each return at most \<open>min(k, |C|)\<close> chunks:
  the similarity search on every store whose indexing of \<open>C\<close> has returned, and on a new
  store whatever the indexing did, without raising; the keyword search whatever the
  indexing did.
\<close>

theorem result_length_bound:
  "is_argsort A \<Longrightarrow> docs \<noteq> [] \<Longrightarrow> 1 \<le> k \<Longrightarrow>
   (add_documents V s docs = Returned s' \<longrightarrow>
      (\<exists>res. similarity_search A V s' q k = Inr res
            \<and> length res \<le> min (nat k) (length docs)))
   \<and> (\<exists>res. similarity_search A V (state_of (add_documents V (LocalVectorStore V) docs)) q k
              = Inr res
          \<and> length res \<le> min (nat k) (length docs))
   \<and> length (keyword_search T (state_of (add_documents V s docs)) q k)
       \<le> min (nat k) (length docs)"
proof (intro conjI impI)
  assume A: "is_argsort A" and k: "1 \<le> k"
  have bound: "\<exists>res. similarity_search A V t q k = Inr res
                   \<and> length res \<le> min (nat k) (length docs)"
    if ok: "add_documents V s0 docs = Returned t" for s0 t
  proof -
    let ?sims = "query_similarities V (vectorizer t) docs q"
    have "length (filter (\<lambda>i. ?sims ! i > 0) (rev (slice_from (- k) (A ?sims))))
          \<le> length (rev (slice_from (- k) (A ?sims)))"
      by (rule length_filter_le)
    also have "\<dots> = min (nat k) (length docs)"
      using k by (simp add: length_slice_from_neg length_argsort[OF A] length_query_similarities)
    finally show ?thesis
      by (simp add: similarity_search_indexed[OF A ok])
  qed
  show "\<exists>res. similarity_search A V s' q k = Inr res \<and> length res \<le> min (nat k) (length docs)"
    if "add_documents V s docs = Returned s'"
    using that by (rule bound)
  show "\<exists>res. similarity_search A V (state_of (add_documents V (LocalVectorStore V) docs)) q k
              = Inr res
          \<and> length res \<le> min (nat k) (length docs)"
  proof (cases "add_documents V (LocalVectorStore V) docs")
    case (Returned t)
    with bound[OF Returned] show ?thesis by simp
  next
    case (Raised e t)
    have "embeddings (LocalVectorStore V) = None" by (simp add: LocalVectorStore_def)
    from similarity_search_fresh_failed[OF this Raised] Raised show ?thesis by simp
  qed
  from k length_keyword_search[of k T "state_of (add_documents V s docs)" q]
  show "length (keyword_search T (state_of (add_documents V s docs)) q k)
       \<le> min (nat k) (length docs)"
    by (simp add: documents_add_documents)
qed

text \<open>
  The theorem at \<open>k = 3\<close> against an index of exactly one chunk.
\<close>

theorem result_length_bound_witness:
  "is_argsort insertion_argsort \<and> [doc ''a kitten''] \<noteq> [] \<and> (1::int) \<le> 3
   \<and> add_documents word_vectorizer fresh_store [doc ''a kitten'']
       = Returned (indexed_from fresh_store [doc ''a kitten''])
   \<and> (\<exists>res. similarity_search insertion_argsort word_vectorizer
              (indexed_from fresh_store [doc ''a kitten'']) ''kitten'' 3 = Inr res
          \<and> length res \<le> min (nat 3) (length [doc ''a kitten'']))
   \<and> length (keyword_search ascii_text (indexed_from fresh_store [doc ''a kitten''])
               ''kitten'' 3)
       \<le> min (nat 3) (length [doc ''a kitten''])"
proof -
  have h0: "is_argsort insertion_argsort" by (rule is_argsort_insertion)
  have h1: "[doc ''a kitten''] \<noteq> []" by simp
  have h2: "(1::int) \<le> 3" by simp
  have h3: "add_documents word_vectorizer fresh_store [doc ''a kitten'']
       = Returned (indexed_from fresh_store [doc ''a kitten''])"
    by (simp add: add_documents_def word_vectorizer_def word_tokens_def split_def doc_def
        is_word_char_def ascii_lower_def Let_def)
  from h0 h1 h2 h3 result_length_bound [OF h0 h1 h2, where V = word_vectorizer
      and s = fresh_store and s' = "indexed_from fresh_store [doc ''a kitten'']"
      and q = "''kitten''" and T = ascii_text]
  show ?thesis by blast
qed

subsection \<open>C5: a query that vectorizes to the zero vector\<close>

text \<open>
  Claim C5. The cosine similarity is \<open>0\<close> whenever either vector has norm zero, and a
  query whose vector is the zero vector gets the empty result from the similarity search,
  as a value and not as an error, on every store whose indexing has returned and for
  every \<open>k\<close>.
\<close>

theorem zero_vector_query:
  "(vnorm a = 0 \<or> vnorm b = 0 \<longrightarrow> cosine_similarity a b = 0)
   \<and> (is_argsort A \<and> add_documents V s docs = Returned s'
        \<and> (\<forall>x\<in>set (transform V (vectorizer s') q). x = 0)
        \<longrightarrow> similarity_search A V s' q k = Inr [])"
proof (intro conjI impI)
  assume "vnorm a = 0 \<or> vnorm b = 0"
  then show "cosine_similarity a b = 0"
    by (auto simp: cosine_similarity_def)
next
  assume h: "is_argsort A \<and> add_documents V s docs = Returned s'
        \<and> (\<forall>x\<in>set (transform V (vectorizer s') q). x = 0)"
  then have A: "is_argsort A" and ok: "add_documents V s docs = Returned s'" by simp_all
  from h have "vnorm (transform V (vectorizer s') q) = 0"
    by (simp add: vnorm_zero)
  then have zero: "chunk_similarity V (vectorizer s') q d = 0" for d
    by (simp add: chunk_similarity_def cosine_similarity_def)
  let ?sims = "query_similarities V (vectorizer s') docs q"
  have "filter (\<lambda>i. ?sims ! i > 0) (rev (slice_from (- k) (A ?sims))) = []"
  proof -
    have "\<not> ?sims ! i > 0" if "i \<in> set (rev (slice_from (- k) (A ?sims)))" for i
    proof -
      from that have "i < length docs"
        using top_indices_bound[OF A, of i "- k" ?sims] by (simp add: length_query_similarities)
      then show ?thesis by (simp add: nth_query_similarities zero)
    qed
    then show ?thesis by (simp add: filter_empty_conv)
  qed
  then show "similarity_search A V s' q k = Inr []"
    by (simp add: similarity_search_indexed[OF A ok])
qed

text \<open>
  The theorem at the empty query, which the vectorizer maps to the zero vector.
\<close>

theorem zero_vector_query_witness:
  "(vnorm [0, 0] = 0 \<or> vnorm [1, 2] = 0)
   \<and> cosine_similarity [0, 0] [1, 2] = 0
   \<and> is_argsort insertion_argsort
   \<and> add_documents word_vectorizer fresh_store [doc ''kitten'', doc ''puppy'']
       = Returned (indexed_from fresh_store [doc ''kitten'', doc ''puppy''])
   \<and> transform word_vectorizer
        (vectorizer (indexed_from fresh_store [doc ''kitten'', doc ''puppy''])) '''' = [0, 0]
   \<and> similarity_search insertion_argsort word_vectorizer
        (indexed_from fresh_store [doc ''kitten'', doc ''puppy'']) '''' 3 = Inr []"
proof -
  have h1: "vnorm [0, 0] = 0 \<or> vnorm [1, 2] = 0"
    by (simp add: vnorm_def dot_def)
  have h2: "is_argsort insertion_argsort" by (rule is_argsort_insertion)
  have h3: "add_documents word_vectorizer fresh_store [doc ''kitten'', doc ''puppy'']
       = Returned (indexed_from fresh_store [doc ''kitten'', doc ''puppy''])"
    by (simp add: add_documents_def word_vectorizer_def word_tokens_def split_def doc_def
        is_word_char_def ascii_lower_def Let_def)
  have h4: "transform word_vectorizer
        (vectorizer (indexed_from fresh_store [doc ''kitten'', doc ''puppy''])) '''' = [0, 0]"
    by (simp add: add_documents_def word_vectorizer_def word_tokens_def split_def doc_def
        is_word_char_def ascii_lower_def Let_def)
  then have h5: "\<forall>x\<in>set (transform word_vectorizer
        (vectorizer (indexed_from fresh_store [doc ''kitten'', doc ''puppy''])) ''''). x = 0"
    by simp
  from h1 h2 h3 h4 h5 zero_vector_query [where a = "[0, 0]" and b = "[1, 2]"
      and A = insertion_argsort and V = word_vectorizer and s = fresh_store
      and docs = "[doc ''kitten'', doc ''puppy'']"
      and s' = "indexed_from fresh_store [doc ''kitten'', doc ''puppy'']"
      and q = "''''" and k = 3]
  show ?thesis by blast
qed

subsection \<open>C6: the keyword score and ranking\<close>

text \<open>
  Claim C6, as amended. For \<open>k \<ge> 0\<close>, the keyword search of the TF-IDF store scores each
  chunk by the sum, over the lowercase words of the query that are longer than three
  characters, of the number of non-overlapping occurrences of the word in the lowercased
  chunk times the word's length; chunks of score zero are discarded, the rest are ranked
  by descending score, chunks of equal score staying in ingestion order, and the first
  \<open>k\<close> are returned. This holds of the chunks handed to \<open>add_documents\<close> whether the
  indexing returned or raised. The keyword search of the embedding store scores a chunk
  by the number of distinct query words that are also words of the chunk, takes the first
  \<open>k\<close> of the same stable descending ranking of all chunks, and drops those of score
  zero.
\<close>

theorem keyword_search_ranking:
  "0 \<le> k \<Longrightarrow>
   (\<exists>ranked.
       keyword_search T (state_of (add_documents V s docs)) query k
         = map snd (take (nat k) ranked)
     \<and> sorted_wrt (\<lambda>a b. fst a \<ge> fst b) ranked
     \<and> (\<forall>v. filter (\<lambda>x. fst x = v) ranked
            = filter (\<lambda>x. fst x = v)
                (filter (\<lambda>(score, d). score > 0)
                   (map (\<lambda>d. (keyword_score T query d, d)) docs))))
   \<and> emb_keyword_search T (emb_add_documents encode LocalEmbeddingVectorStore docs) query k
       = map snd (filter (\<lambda>(score, d). score > 0)
           (take (nat k) (sort_reverse fst (map (\<lambda>d. (shared_words T query d, d)) docs))))"
proof
  assume k: "0 \<le> k"
  let ?scored = "filter (\<lambda>(score, d). score > 0)
                   (map (\<lambda>d. (keyword_score T query d, d)) docs)"
  have "keyword_search T (state_of (add_documents V s docs)) query k
        = map snd (take (nat k) (sort_reverse fst ?scored))"
    using k by (simp add: keyword_search_scored documents_add_documents slice_to_take)
  moreover have "sorted_wrt (\<lambda>a b. fst a \<ge> fst b) (sort_reverse fst ?scored)"
    by (rule sort_reverse_descending)
  moreover have "\<forall>v. filter (\<lambda>x. fst x = v) (sort_reverse fst ?scored)
                    = filter (\<lambda>x. fst x = v) ?scored"
    by (simp add: sort_reverse_stable)
  ultimately show "\<exists>ranked.
       keyword_search T (state_of (add_documents V s docs)) query k
         = map snd (take (nat k) ranked)
     \<and> sorted_wrt (\<lambda>a b. fst a \<ge> fst b) ranked
     \<and> (\<forall>v. filter (\<lambda>x. fst x = v) ranked = filter (\<lambda>x. fst x = v) ?scored)"
    by blast
next
  assume k: "0 \<le> k"
  show "emb_keyword_search T (emb_add_documents encode LocalEmbeddingVectorStore docs) query k
       = map snd (filter (\<lambda>(score, d). score > 0)
           (take (nat k) (sort_reverse fst (map (\<lambda>d. (shared_words T query d, d)) docs))))"
  proof (cases "docs = []")
    case True
    then show ?thesis
      by (simp add: emb_keyword_search_def emb_add_documents_def LocalEmbeddingVectorStore_def
          sort_reverse_def)
  next
    case False
    with k show ?thesis
      by (simp add: emb_keyword_search_def emb_add_documents_def LocalEmbeddingVectorStore_def
          Let_def emb_score_documents_eq slice_to_take)
  qed
qed

text \<open>
  The theorem at \<open>k = 2\<close> and three chunks.
\<close>

theorem keyword_search_ranking_witness:
  "(0::int) \<le> 2
   \<and> (\<exists>ranked.
       keyword_search ascii_text
         (indexed_from fresh_store [doc ''kitten'', doc ''puppy'', doc ''Kitten kitten''])
         ''a Kitten'' 2 = map snd (take (nat 2) ranked)
     \<and> sorted_wrt (\<lambda>a b. fst a \<ge> fst b) ranked
     \<and> (\<forall>v. filter (\<lambda>x. fst x = v) ranked
            = filter (\<lambda>x. fst x = v)
                (filter (\<lambda>(score, d). score > 0)
                   (map (\<lambda>d. (keyword_score ascii_text ''a Kitten'' d, d))
                      [doc ''kitten'', doc ''puppy'', doc ''Kitten kitten'']))))
   \<and> emb_keyword_search ascii_text
        (emb_add_documents balance_encode LocalEmbeddingVectorStore
           [doc ''kitten'', doc ''puppy'', doc ''Kitten kitten''])
        ''a Kitten'' 2
       = map snd (filter (\<lambda>(score, d). score > 0)
           (take (nat 2) (sort_reverse fst
              (map (\<lambda>d. (shared_words ascii_text ''a Kitten'' d, d))
                 [doc ''kitten'', doc ''puppy'', doc ''Kitten kitten'']))))"
proof -
  have h: "(0::int) \<le> 2" by simp
  from h keyword_search_ranking [OF h, of ascii_text word_vectorizer fresh_store
      "[doc ''kitten'', doc ''puppy'', doc ''Kitten kitten'']" "''a Kitten''" balance_encode]
  show ?thesis by blast
qed

text \<open>
  A query word of three characters that occurs in a chunk would score \<open>1 * 3\<close> under the
  claim as stated, yet the chunk is not returned.
\<close>

theorem keyword_score_counterexample:
  "split ascii_text (lower ascii_text ''cat'') = [''cat'']
   \<and> count (lower ascii_text (page_content (doc ''cat''))) ''cat'' * length ''cat'' = 3
   \<and> keyword_search ascii_text (indexed_from fresh_store [doc ''cat'']) ''cat'' 3 = []"
  by (simp add: keyword_search_def add_documents_def LocalVectorStore_def doc_def ascii_text_def
      ascii_lower_def ascii_isspace_def split_def count_def sort_reverse_def slice_to_def Let_def
      split: sum.splits)

subsection \<open>C7: falling back to TF-IDF\<close>

text \<open>
  Claim C7, as amended. When the embedding provider fails at index time,
  \<open>create_vector_store\<close> builds a \<open>LocalVectorStore\<close> and indexes the chunks with it. If
  the TF-IDF \<open>fit_transform\<close> returns, the function returns that store, which holds every
  chunk and, for each, the vector of the one vectorizer fitted on them; the provider's
  failure is not surfaced. If \<open>fit_transform\<close> raises as well (an empty vocabulary, for
  instance), its error is raised to the caller: the fallback is not guarded. A store
  returned after the provider failed is never the embedding store, and its similarity
  search answers with the chunks of positive TF-IDF similarity.
\<close>

theorem provider_failure_falls_back:
  "provider (map page_content chunks) = Inl e \<Longrightarrow>
   (fit V (map page_content chunks) = Inr m \<longrightarrow>
      create_vector_store V provider chunks
        = Inr (Local \<lparr>documents = chunks,
                      embeddings = Some (map (\<lambda>d. transform V m (page_content d)) chunks),
                      vectorizer = m\<rparr>))
   \<and> (fit V (map page_content chunks) = Inl e' \<longrightarrow>
        create_vector_store V provider chunks = Inl e')
   \<and> (is_argsort A \<and> create_vector_store V provider chunks = Inr st \<longrightarrow>
        (\<exists>ls. st = Local ls \<and> documents ls = chunks
            \<and> fit V (map page_content chunks) = Inr (vectorizer ls)
            \<and> (\<exists>res. similarity_search A V ls q k = Inr res
                   \<and> (\<forall>d\<in>set res. chunk_similarity V (vectorizer ls) q d > 0))))"
proof (intro conjI impI)
  assume p: "provider (map page_content chunks) = Inl e"
  show "create_vector_store V provider chunks
        = Inr (Local \<lparr>documents = chunks,
                      embeddings = Some (map (\<lambda>d. transform V m (page_content d)) chunks),
                      vectorizer = m\<rparr>)"
    if "fit V (map page_content chunks) = Inr m"
    using p that
    by (simp add: create_vector_store_def add_documents_def LocalVectorStore_def Let_def o_def)
  show "create_vector_store V provider chunks = Inl e'"
    if "fit V (map page_content chunks) = Inl e'"
    using p that
    by (simp add: create_vector_store_def add_documents_def Let_def)
  show "\<exists>ls. st = Local ls \<and> documents ls = chunks
            \<and> fit V (map page_content chunks) = Inr (vectorizer ls)
            \<and> (\<exists>res. similarity_search A V ls q k = Inr res
                   \<and> (\<forall>d\<in>set res. chunk_similarity V (vectorizer ls) q d > 0))"
    if h: "is_argsort A \<and> create_vector_store V provider chunks = Inr st"
  proof -
    from h p obtain ls where
      ls: "add_documents V (LocalVectorStore V) chunks = Returned ls" and st: "st = Local ls"
      by (auto simp: create_vector_store_def split: outcome.splits)
    from ls have "documents ls = chunks"
      and "fit V (map page_content chunks) = Inr (vectorizer ls)"
      by (auto simp: add_documents_Returned)
    moreover from h ls
    have "\<exists>res. similarity_search A V ls q k = Inr res
            \<and> (\<forall>d\<in>set res. chunk_similarity V (vectorizer ls) q d > 0)"
      by (simp add: similarity_search_positive)
    ultimately show ?thesis using st by blast
  qed
qed

text \<open>
  The theorem at a provider that always fails, on a collection the vectorizer accepts
  and on one whose vocabulary is empty.
\<close>

theorem provider_failure_falls_back_witness:
  "failing_provider (map page_content [doc ''kitten'', doc ''puppy'']) = Inl ProviderError
   \<and> fit word_vectorizer (map page_content [doc ''kitten'', doc ''puppy''])
       = Inr [''kitten'', ''puppy'']
   \<and> create_vector_store word_vectorizer failing_provider [doc ''kitten'', doc ''puppy'']
       = Inr (Local \<lparr>documents = [doc ''kitten'', doc ''puppy''],
                     embeddings = Some (map (\<lambda>d. transform word_vectorizer
                                                  [''kitten'', ''puppy''] (page_content d))
                                          [doc ''kitten'', doc ''puppy'']),
                     vectorizer = [''kitten'', ''puppy'']\<rparr>)
   \<and> is_argsort insertion_argsort
   \<and> (\<exists>ls. documents ls = [doc ''kitten'', doc ''puppy'']
          \<and> (\<exists>res. similarity_search insertion_argsort word_vectorizer ls ''kitten'' 3 = Inr res
                 \<and> (\<forall>d\<in>set res. chunk_similarity word_vectorizer (vectorizer ls) ''kitten'' d
                                    > 0)))
   \<and> failing_provider (map page_content [doc ''a'', doc ''b'']) = Inl ProviderError
   \<and> fit word_vectorizer (map page_content [doc ''a'', doc ''b'']) = Inl ValueError
   \<and> create_vector_store word_vectorizer failing_provider [doc ''a'', doc ''b'']
       = Inl ValueError"
proof -
  have h1: "failing_provider (map page_content [doc ''kitten'', doc ''puppy''])
              = Inl ProviderError"
    by (simp add: failing_provider_def)
  have h2: "fit word_vectorizer (map page_content [doc ''kitten'', doc ''puppy''])
              = Inr [''kitten'', ''puppy'']"
    by (simp add: word_vectorizer_def word_tokens_def split_def doc_def is_word_char_def
        ascii_lower_def Let_def)
  have h3: "failing_provider (map page_content [doc ''a'', doc ''b'']) = Inl ProviderError"
    by (simp add: failing_provider_def)
  have h4: "fit word_vectorizer (map page_content [doc ''a'', doc ''b'']) = Inl ValueError"
    by (simp add: word_vectorizer_def word_tokens_def split_def doc_def is_word_char_def
        ascii_lower_def Let_def)
  have h5: "is_argsort insertion_argsort" by (rule is_argsort_insertion)
  note ok = provider_failure_falls_back [where provider = failing_provider
      and V = word_vectorizer, OF h1, where m = "[''kitten'', ''puppy'']"
      and A = insertion_argsort and q = "''kitten''" and k = 3
      and st = "Local \<lparr>documents = [doc ''kitten'', doc ''puppy''],
                     embeddings = Some (map (\<lambda>d. transform word_vectorizer
                                                  [''kitten'', ''puppy''] (page_content d))
                                          [doc ''kitten'', doc ''puppy'']),
                     vectorizer = [''kitten'', ''puppy'']\<rparr>"]
  note bad = provider_failure_falls_back [where provider = failing_provider
      and V = word_vectorizer, OF h3, where e' = ValueError]
  from ok h2 have c1: "create_vector_store word_vectorizer failing_provider
        [doc ''kitten'', doc ''puppy'']
       = Inr (Local \<lparr>documents = [doc ''kitten'', doc ''puppy''],
                     embeddings = Some (map (\<lambda>d. transform word_vectorizer
                                                  [''kitten'', ''puppy''] (page_content d))
                                          [doc ''kitten'', doc ''puppy'']),
                     vectorizer = [''kitten'', ''puppy'']\<rparr>)"
    by blast
  with ok h5 have c2: "\<exists>ls. documents ls = [doc ''kitten'', doc ''puppy'']
          \<and> (\<exists>res. similarity_search insertion_argsort word_vectorizer ls ''kitten'' 3 = Inr res
                 \<and> (\<forall>d\<in>set res. chunk_similarity word_vectorizer (vectorizer ls) ''kitten'' d
                                    > 0))"
    by blast
  from bad h4 have c3: "create_vector_store word_vectorizer failing_provider
        [doc ''a'', doc ''b''] = Inl ValueError"
    by blast
  from h1 h2 h3 h4 h5 c1 c2 c3 show ?thesis by blast
qed

text \<open>
  With the provider failing and a collection whose vocabulary is empty, indexing does
  not succeed: \<open>create_vector_store\<close> raises.
\<close>

theorem provider_failure_counterexample:
  "failing_provider (map page_content [doc ''a'', doc ''b'']) = Inl ProviderError
   \<and> create_vector_store word_vectorizer failing_provider [doc ''a'', doc ''b'']
       = Inl ValueError"
  by (simp add: create_vector_store_def failing_provider_def add_documents_def
      LocalVectorStore_def word_vectorizer_def word_tokens_def split_def doc_def
      is_word_char_def ascii_lower_def Let_def)

subsection \<open>C8: chunks with empty text\<close>

text \<open>
  Claim C8, as amended. \<open>add_documents\<close> skips no chunk. When the vectorizer's
  \<open>fit_transform\<close> returns, every chunk handed in is stored, in order, a chunk with empty
  text included, with exactly one vector per chunk, the vector of that chunk's text. When
  \<open>fit_transform\<close> raises, \<open>add_documents\<close> raises that error, with the chunks stored and
  no vector computed for any of them. The embedding store stores every chunk with its
  vector.
\<close>

theorem every_chunk_indexed:
  "(fit V (map page_content docs) = Inr m \<longrightarrow>
      add_documents V s docs
        = Returned (s\<lparr>documents := docs, vectorizer := m,
                      embeddings := Some (map (\<lambda>d. transform V m (page_content d)) docs)\<rparr>))
   \<and> (fit V (map page_content docs) = Inl e \<longrightarrow>
        add_documents V s docs
          = Raised e (s\<lparr>documents := docs, vectorizer := after_failed_fit V (vectorizer s)\<rparr>))
   \<and> documents (emb_add_documents encode LocalEmbeddingVectorStore docs) = docs
   \<and> embeddings (emb_add_documents encode LocalEmbeddingVectorStore docs)
       = Some (map (\<lambda>d. encode (page_content d)) docs)"
  by (simp add: add_documents_def emb_add_documents_def LocalEmbeddingVectorStore_def Let_def
      o_def)

text \<open>
  The theorem at a collection whose first chunk has empty text, and at a collection of
  one empty chunk, on which the vectorizer raises.
\<close>

theorem every_chunk_indexed_witness:
  "fit word_vectorizer (map page_content [doc '''', doc ''kitten'']) = Inr [''kitten'']
   \<and> add_documents word_vectorizer fresh_store [doc '''', doc ''kitten'']
       = Returned (fresh_store\<lparr>documents := [doc '''', doc ''kitten''],
                     vectorizer := [''kitten''],
                     embeddings := Some (map (\<lambda>d. transform word_vectorizer [''kitten'']
                                                  (page_content d))
                                          [doc '''', doc ''kitten''])\<rparr>)
   \<and> fit word_vectorizer (map page_content [doc '''']) = Inl ValueError
   \<and> add_documents word_vectorizer fresh_store [doc '''']
       = Raised ValueError
           (fresh_store\<lparr>documents := [doc ''''],
              vectorizer := after_failed_fit word_vectorizer (vectorizer fresh_store)\<rparr>)
   \<and> documents (emb_add_documents balance_encode LocalEmbeddingVectorStore
                  [doc '''', doc ''kitten''])
       = [doc '''', doc ''kitten'']
   \<and> embeddings (emb_add_documents balance_encode LocalEmbeddingVectorStore
                   [doc '''', doc ''kitten''])
       = Some (map (\<lambda>d. balance_encode (page_content d)) [doc '''', doc ''kitten''])"
proof -
  have h1: "fit word_vectorizer (map page_content [doc '''', doc ''kitten''])
              = Inr [''kitten'']"
    by (simp add: word_vectorizer_def word_tokens_def split_def doc_def is_word_char_def
        ascii_lower_def Let_def)
  have h2: "fit word_vectorizer (map page_content [doc '''']) = Inl ValueError"
    by (simp add: word_vectorizer_def word_tokens_def split_def doc_def Let_def)
  from h1 h2
    every_chunk_indexed [where V = word_vectorizer and docs = "[doc '''', doc ''kitten'']"
      and m = "[''kitten'']" and s = fresh_store and encode = balance_encode]
    every_chunk_indexed [where V = word_vectorizer and docs = "[doc '''']"
      and e = ValueError and s = fresh_store]
  show ?thesis by blast
qed

text \<open>
  The chunk with empty text is not skipped: it is stored, with a vector of its own (the
  zero vector), next to the chunk that has text.
\<close>

theorem empty_chunk_counterexample:
  "add_documents word_vectorizer fresh_store [doc '''', doc ''kitten'']
     = Returned \<lparr>documents = [doc '''', doc ''kitten''],
                 embeddings = Some [[0], [1]],
                 vectorizer = [''kitten'']\<rparr>"
  by (simp add: add_documents_def LocalVectorStore_def word_vectorizer_def word_tokens_def
      split_def doc_def is_word_char_def ascii_lower_def Let_def)

subsection \<open>C9: the value of k\<close>

text \<open>
  Claim C9, as amended. The similarity search validates \<open>k\<close> nowhere and raises for no
  integer \<open>k\<close>: on every store whose indexing has returned, on a new store whatever its
  indexing did, and on a store never indexed, it returns a list. With \<open>k = 0\<close> the slice
  \<open>[-0:]\<close> keeps the whole ranking, so every chunk of positive similarity is returned.
\<close>

theorem search_any_k:
  "is_argsort A \<Longrightarrow>
   (add_documents V s docs = Returned s' \<longrightarrow>
      (\<exists>res. similarity_search A V s' q k = Inr res
            \<and> (k = 0 \<longrightarrow> (\<forall>i<length docs. query_similarities V (vectorizer s') docs q ! i > 0
                                           \<longrightarrow> docs ! i \<in> set res))))
   \<and> (\<exists>res. similarity_search A V (state_of (add_documents V (LocalVectorStore V) docs)) q k
              = Inr res)
   \<and> similarity_search A V (LocalVectorStore V) q k = Inr []"
proof (intro conjI impI)
  assume A: "is_argsort A" and ok: "add_documents V s docs = Returned s'"
  let ?sims = "query_similarities V (vectorizer s') docs q"
  let ?idxs = "filter (\<lambda>i. ?sims ! i > 0) (rev (slice_from (- k) (A ?sims)))"
  have "docs ! i \<in> set (map ((!) docs) ?idxs)"
    if "k = 0" "i < length docs" "?sims ! i > 0" for i
  proof -
    from that(1) have "slice_from (- k) (A ?sims) = A ?sims"
      by (simp add: slice_from_def)
    with that(2,3) have "i \<in> set ?idxs"
      by (simp add: set_argsort[OF A] length_query_similarities)
    then show ?thesis by simp
  qed
  then show "\<exists>res. similarity_search A V s' q k = Inr res
         \<and> (k = 0 \<longrightarrow> (\<forall>i<length docs. query_similarities V (vectorizer s') docs q ! i > 0
                                        \<longrightarrow> docs ! i \<in> set res))"
    unfolding similarity_search_indexed[OF A ok] by blast
next
  assume A: "is_argsort A"
  show "\<exists>res. similarity_search A V (state_of (add_documents V (LocalVectorStore V) docs)) q k
              = Inr res"
  proof (cases "add_documents V (LocalVectorStore V) docs")
    case (Returned t)
    then show ?thesis by (simp add: similarity_search_indexed[OF A Returned])
  next
    case (Raised e t)
    have "embeddings (LocalVectorStore V) = None" by (simp add: LocalVectorStore_def)
    from similarity_search_fresh_failed[OF this Raised] Raised show ?thesis by simp
  qed
next
  show "similarity_search A V (LocalVectorStore V) q k = Inr []"
    by (simp add: similarity_search_def LocalVectorStore_def)
qed

text \<open>
  The theorem at \<open>k = 0\<close>.
\<close>

theorem search_any_k_witness:
  "is_argsort insertion_argsort
   \<and> add_documents word_vectorizer fresh_store [doc ''kitten'', doc ''puppy'']
       = Returned (indexed_from fresh_store [doc ''kitten'', doc ''puppy''])
   \<and> query_similarities word_vectorizer
        (vectorizer (indexed_from fresh_store [doc ''kitten'', doc ''puppy'']))
        [doc ''kitten'', doc ''puppy''] ''kitten'' ! 0 > 0
   \<and> (\<exists>res. similarity_search insertion_argsort word_vectorizer
              (indexed_from fresh_store [doc ''kitten'', doc ''puppy'']) ''kitten'' 0 = Inr res
          \<and> [doc ''kitten'', doc ''puppy''] ! 0 \<in> set res)
   \<and> similarity_search insertion_argsort word_vectorizer fresh_store ''kitten'' 0 = Inr []"
proof -
  have h1: "is_argsort insertion_argsort" by (rule is_argsort_insertion)
  have h2: "add_documents word_vectorizer fresh_store [doc ''kitten'', doc ''puppy'']
       = Returned (indexed_from fresh_store [doc ''kitten'', doc ''puppy''])"
    by (simp add: add_documents_def word_vectorizer_def word_tokens_def split_def doc_def
        is_word_char_def ascii_lower_def Let_def)
  have h3: "query_similarities word_vectorizer
        (vectorizer (indexed_from fresh_store [doc ''kitten'', doc ''puppy'']))
        [doc ''kitten'', doc ''puppy''] ''kitten'' ! 0 > 0"
    by (simp add: query_similarities_def chunk_similarity_def add_documents_def
        word_vectorizer_def word_tokens_def split_def doc_def is_word_char_def ascii_lower_def
        cosine_similarity_def vnorm_def dot_def Let_def)
  from h1 h2 h3 search_any_k [OF h1, where V = word_vectorizer and s = fresh_store
      and docs = "[doc ''kitten'', doc ''puppy'']"
      and s' = "indexed_from fresh_store [doc ''kitten'', doc ''puppy'']"
      and q = "''kitten''" and k = 0]
  show ?thesis by fastforce
qed

text \<open>
  With \<open>k = 0\<close>, \<open>k = -1\<close> and \<open>k = -2\<close> the search returns a list and raises nothing.
\<close>

theorem search_any_k_counterexample:
  "similarity_search insertion_argsort word_vectorizer
     (indexed_from fresh_store [doc ''kitten'', doc ''puppy'']) ''kitten'' 0
     = Inr [doc ''kitten'']
   \<and> similarity_search insertion_argsort word_vectorizer
       (indexed_from fresh_store [doc ''kitten'', doc ''puppy'']) ''kitten'' (- 1)
       = Inr [doc ''kitten'']
   \<and> similarity_search insertion_argsort word_vectorizer
       (indexed_from fresh_store [doc ''kitten'', doc ''puppy'']) ''kitten'' (- 2)
       = Inr []"
  by (simp add: similarity_search_def add_documents_def LocalVectorStore_def
      word_vectorizer_def word_tokens_def split_def is_word_char_def ascii_lower_def
      doc_def cosine_similarity_def vnorm_def dot_def insertion_argsort_def slice_from_def
      getitem_def Let_def)

subsection \<open>C10: short query words\<close>

text \<open>
  Claim C10. In the keyword search of the TF-IDF store, query words of at most three
  characters add nothing to a chunk's score, and a query all of whose words have at most
  three characters gets the empty result, for every store and every \<open>k\<close>.
\<close>

theorem short_words_ignored:
  "score_words content ws 0 = score_words content (filter (\<lambda>w. length w > 3) ws) 0
   \<and> ((\<forall>w\<in>set (split T (lower T query)). length w \<le> 3)
        \<longrightarrow> keyword_search T s query k = [])"
proof (intro conjI impI)
  show "score_words content ws 0 = score_words content (filter (\<lambda>w. length w > 3) ws) 0"
    by (simp add: score_words_eq)
next
  assume "\<forall>w\<in>set (split T (lower T query)). length w \<le> 3"
  then have "filter (\<lambda>w. length w > 3) (split T (lower T query)) = []"
    by (auto simp: filter_empty_conv)
  then have "keyword_score T query d = 0" for d
    by (simp add: keyword_score_def)
  then show "keyword_search T s query k = []"
    by (simp add: keyword_search_scored sort_reverse_def slice_to_def)
qed

text \<open>
  The theorem at a query whose two words occur verbatim in the chunks.
\<close>

theorem short_words_ignored_witness:
  "split ascii_text (lower ascii_text ''A cat'') = [''a'', ''cat'']
   \<and> keyword_search ascii_text (indexed_from fresh_store [doc ''a cat sat'', doc ''cat''])
        ''A cat'' 3 = []"
proof -
  have w: "split ascii_text (lower ascii_text ''A cat'') = [''a'', ''cat'']"
    by (simp add: split_def ascii_text_def ascii_isspace_def ascii_lower_def)
  then have "\<forall>w\<in>set (split ascii_text (lower ascii_text ''A cat'')). length w \<le> 3"
    by simp
  with short_words_ignored [of _ _ ascii_text "''A cat''"] w show ?thesis
    by blast
qed

end
